theory Spec2Isabelle
  imports Complex_Main
begin

section \<open>Data model\<close>

text \<open>
  The persisted state is the three tables of the migration that accompanies
  \<^verbatim>\<open>EmployeeDetailsDialog.tsx\<close>: \<^verbatim>\<open>profiles\<close>, \<^verbatim>\<open>tasks\<close> and \<^verbatim>\<open>task_history\<close>.
  A \<^verbatim>\<open>UUID\<close> is a natural number (only equality and freshness matter), an instant
  (\<^verbatim>\<open>TIMESTAMP WITH TIME ZONE\<close>, a JavaScript \<^verbatim>\<open>Date\<close>) is its number of milliseconds
  since the epoch, a \<^verbatim>\<open>DATE\<close> is its number of days since the epoch. A nullable column
  is an \<open>option\<close>.
\<close>

type_synonym uuid = nat
type_synonym timestamp = int
type_synonym date = int

datatype user_role = manager | employee

datatype task_status = not_started | in_progress | finished

record profile =
  profile_id :: uuid
  user_id :: uuid
  username :: string
  full_name :: string
  profile_title :: "string option"
  role :: user_role
  position :: "string option"
  details :: "string option"
  is_active :: bool

record task =
  task_ident :: uuid
  title :: string
  description :: "string option"
  assigned_to :: uuid
  assigned_by :: uuid
  status :: task_status
  start_date :: date
  deadline_date :: date
  completed_at :: "timestamp option"
  created_at :: timestamp
  updated_at :: timestamp

record history_entry =
  history_id :: uuid
  task_id :: uuid
  old_status :: "task_status option"
  new_status :: task_status
  changed_by :: uuid
  changed_at :: timestamp

text \<open>
  \<^verbatim>\<open>gen_random_uuid()\<close> is modelled by the counter \<open>next_uuid\<close>: each insert takes the
  counter's value and increments it.
\<close>

record database =
  profiles :: "profile list"
  tasks :: "task list"
  task_history :: "history_entry list"
  next_uuid :: uuid

section \<open>Metrics engine\<close>

subsection \<open>JavaScript numbers\<close>

text \<open>
  \<^verbatim>\<open>Math.round((completed / total) * 100)\<close> is evaluated on IEEE 754 binary64 numbers:
  the quotient is rounded to the nearest double (ties to even), so is the product, and
  \<^verbatim>\<open>Math.round\<close> then returns the nearest integer, a tie going towards \<open>+\<infinity>\<close>. A double is
  modelled by the rational it denotes. Only positive values in the normal range occur
  (the operands are array lengths and the constant 100), so overflow, subnormal numbers
  and signed zeros are left out.
\<close>

text \<open>The number of binary digits of a positive integer.\<close>

function bit_length :: "int \<Rightarrow> int" where
  "bit_length n = (if n \<le> 0 then 0 else 1 + bit_length (n div 2))"
  by pat_completeness auto
termination
  by (relation "measure nat") auto

declare bit_length.simps [simp del]

definition pow2 :: "int \<Rightarrow> rat" where
  "pow2 e = (if 0 \<le> e then 2 ^ nat e else 1 / 2 ^ nat (- e))"

text \<open>The exponent \<open>e\<close> of a positive rational \<open>x\<close>: \<open>2 ^ e \<le> x < 2 ^ (e + 1)\<close>.\<close>

definition binade :: "rat \<Rightarrow> int" where
  "binade x =
     (let (n, d) = quotient_of x;
          k = bit_length n - bit_length d
      in if pow2 k \<le> x then k else k - 1)"

definition round_half_even :: "rat \<Rightarrow> int" where
  "round_half_even x =
     (let f = \<lfloor>x\<rfloor>; r = x - of_int f
      in if r < 1 / 2 then f
         else if 1 / 2 < r then f + 1
         else if even f then f else f + 1)"

text \<open>The nearest binary64 number: 53 significant bits, ties to even.\<close>

definition to_double :: "rat \<Rightarrow> rat" where
  "to_double x =
     (if x \<le> 0 then 0
      else let e = binade x - 52
           in of_int (round_half_even (x / pow2 e)) * pow2 e)"

definition js_div :: "rat \<Rightarrow> rat \<Rightarrow> rat" where
  "js_div a b = to_double (a / b)"

definition js_mul :: "rat \<Rightarrow> rat \<Rightarrow> rat" where
  "js_mul a b = to_double (a * b)"

definition Math_round :: "rat \<Rightarrow> int" where
  "Math_round x = \<lfloor>x + 1 / 2\<rfloor>"

text \<open>\<^verbatim>\<open>d > 0 ? Math.round((n / d) * 100) : 0\<close> on two array lengths.\<close>

definition percentage :: "nat \<Rightarrow> nat \<Rightarrow> int" where
  "percentage n d =
     (if 0 < d then Math_round (js_mul (js_div (of_nat n) (of_nat d)) 100) else 0)"

subsection \<open>Task statistics\<close>

text \<open>
  A JavaScript \<^verbatim>\<open>Date\<close> holds a time value of at most 8.64e15 milliseconds on either side
  of the epoch (100 000 000 days), or is an Invalid Date (\<open>None\<close>), whose time value is
  \<^verbatim>\<open>NaN\<close>: every comparison with it is false.
  \<^verbatim>\<open>new Date(task.deadline_date)\<close> reads a \<^verbatim>\<open>DATE\<close> (\<^verbatim>\<open>YYYY-MM-DD\<close>) as midnight UTC of that
  day; \<^verbatim>\<open>new Date(task.completed_at!)\<close> reads the instant, and \<^verbatim>\<open>new Date(null)\<close> is the
  epoch.
\<close>

definition valid_time_value :: "timestamp \<Rightarrow> bool" where
  "valid_time_value t = (- 8640000000000000 \<le> t \<and> t \<le> 8640000000000000)"

definition Date_of_date :: "date \<Rightarrow> timestamp option" where
  "Date_of_date d = (if valid_time_value (d * 86400000) then Some (d * 86400000) else None)"

definition Date_of_completed_at :: "timestamp option \<Rightarrow> timestamp option" where
  "Date_of_completed_at c =
     (case c of None \<Rightarrow> Some 0
      | Some i \<Rightarrow> if valid_time_value i then Some i else None)"

text \<open>\<^verbatim>\<open>a <= b\<close> and \<^verbatim>\<open>a > b\<close> on two \<^verbatim>\<open>Date\<close> objects.\<close>

definition Date_le :: "timestamp option \<Rightarrow> timestamp option \<Rightarrow> bool" where
  "Date_le a b = (case (a, b) of (Some x, Some y) \<Rightarrow> x \<le> y | _ \<Rightarrow> False)"

definition Date_gt :: "timestamp option \<Rightarrow> timestamp option \<Rightarrow> bool" where
  "Date_gt a b = (case (a, b) of (Some x, Some y) \<Rightarrow> y < x | _ \<Rightarrow> False)"

definition completed_on_time :: "task \<Rightarrow> bool" where
  "completed_on_time t =
     (let completedDate = Date_of_completed_at (completed_at t);
          deadlineDate = Date_of_date (deadline_date t)
      in Date_le completedDate deadlineDate)"

record task_stats =
  total :: nat
  completed :: nat
  inProgress :: nat
  notStarted :: nat
  onTimeRate :: int
  completionRate :: int

text \<open>\<^verbatim>\<open>getTaskStats\<close> of \<^verbatim>\<open>EmployeeDetailsDialog\<close> and of \<^verbatim>\<open>EmployeeDashboard\<close> (the same text).\<close>

definition getTaskStats :: "task list \<Rightarrow> task_stats" where
  "getTaskStats tasks_prop =
     (let total_n = length tasks_prop;
          completed_n = length (filter (\<lambda>t. status t = finished) tasks_prop);
          inProgress_n = length (filter (\<lambda>t. status t = in_progress) tasks_prop);
          notStarted_n = length (filter (\<lambda>t. status t = not_started) tasks_prop);
          completedTasks =
            filter (\<lambda>t. status t = finished \<and> completed_at t \<noteq> None) tasks_prop;
          onTimeTasks = filter completed_on_time completedTasks
      in \<lparr> total = total_n,
           completed = completed_n,
           inProgress = inProgress_n,
           notStarted = notStarted_n,
           onTimeRate = percentage (length onTimeTasks) (length completedTasks),
           completionRate = percentage completed_n total_n \<rparr>)"

record employee_progress =
  progress_total :: nat
  progress_completed :: nat
  progress_percentage :: int

text \<open>\<^verbatim>\<open>getEmployeeProgress\<close> and \<^verbatim>\<open>getOnTimeCompletionRate\<close> of \<^verbatim>\<open>ManagerDashboard\<close>.\<close>

definition getEmployeeProgress :: "task list \<Rightarrow> uuid \<Rightarrow> employee_progress" where
  "getEmployeeProgress tasks_state employeeId =
     (let employeeTasks = filter (\<lambda>t. assigned_to t = employeeId) tasks_state;
          completedTasks = filter (\<lambda>t. status t = finished) employeeTasks;
          total_n = length employeeTasks;
          completed_n = length completedTasks
      in \<lparr> progress_total = total_n,
           progress_completed = completed_n,
           progress_percentage = percentage completed_n total_n \<rparr>)"

definition getOnTimeCompletionRate :: "task list \<Rightarrow> uuid \<Rightarrow> int" where
  "getOnTimeCompletionRate tasks_state employeeId =
     (let employeeTasks =
            filter (\<lambda>t. assigned_to t = employeeId \<and> status t = finished
                         \<and> completed_at t \<noteq> None) tasks_state;
          onTimeTasks = filter completed_on_time employeeTasks
      in percentage (length onTimeTasks) (length employeeTasks))"

text \<open>
  The rates as the specification words them: round-half-up of the exact quotient,
  \<open>0\<close> on an empty denominator.
\<close>

definition round_half_up :: "rat \<Rightarrow> int" where
  "round_half_up x = \<lfloor>x + 1 / 2\<rfloor>"

definition spec_completionRate :: "task list \<Rightarrow> int" where
  "spec_completionRate ts =
     (if ts = [] then 0
      else round_half_up
             (100 * of_nat (length (filter (\<lambda>t. status t = finished) ts))
                / of_nat (length ts)))"

definition spec_onTimeRate :: "task list \<Rightarrow> int" where
  "spec_onTimeRate ts =
     (let done = filter (\<lambda>t. status t = finished \<and> completed_at t \<noteq> None) ts;
          timely = filter (\<lambda>t. status t = finished
                     \<and> (case completed_at t of None \<Rightarrow> False
                         | Some c \<Rightarrow> c \<le> deadline_date t * 86400000)) ts
      in if done = [] then 0
         else round_half_up (100 * of_nat (length timely) / of_nat (length done)))"

section \<open>Access policies\<close>

text \<open>
  \<open>uid\<close> is \<^verbatim>\<open>auth.uid()\<close>, \<open>None\<close> for an unauthenticated request. The scalar subquery
  \<^verbatim>\<open>(SELECT id FROM public.profiles WHERE user_id = auth.uid())\<close> has at most one row
  (\<^verbatim>\<open>user_id\<close> is \<^verbatim>\<open>UNIQUE\<close>) and is \<^verbatim>\<open>NULL\<close> when there is none; a comparison with \<^verbatim>\<open>NULL\<close>
  is not true.
\<close>

definition current_profile_id :: "database \<Rightarrow> uuid option \<Rightarrow> uuid option" where
  "current_profile_id db uid =
     (case uid of None \<Rightarrow> None
      | Some u \<Rightarrow> map_option profile_id (find (\<lambda>p. user_id p = u) (profiles db)))"

definition is_manager :: "database \<Rightarrow> uuid option \<Rightarrow> bool" where
  "is_manager db uid =
     (case uid of None \<Rightarrow> False
      | Some u \<Rightarrow> list_ex (\<lambda>p. user_id p = u \<and> role p = manager) (profiles db))"

text \<open>"Users can view their own tasks or managers can view all"\<close>

definition tasks_select_policy :: "database \<Rightarrow> uuid option \<Rightarrow> task \<Rightarrow> bool" where
  "tasks_select_policy db uid t =
     (current_profile_id db uid = Some (assigned_to t) \<or> is_manager db uid)"

text \<open>"Managers can insert tasks"\<close>

definition tasks_insert_policy :: "database \<Rightarrow> uuid option \<Rightarrow> bool" where
  "tasks_insert_policy db uid = is_manager db uid"

text \<open>
  "Managers can update tasks or employees can update their own status": the policy has a
  \<^verbatim>\<open>USING\<close> expression and no \<^verbatim>\<open>WITH CHECK\<close>, so the same expression is checked on the old
  row and on the new one.
\<close>

definition tasks_update_policy :: "database \<Rightarrow> uuid option \<Rightarrow> task \<Rightarrow> bool" where
  "tasks_update_policy db uid t =
     (is_manager db uid \<or> current_profile_id db uid = Some (assigned_to t))"

text \<open>"All authenticated users can insert task history"\<close>

definition task_history_insert_policy :: "uuid option \<Rightarrow> bool" where
  "task_history_insert_policy uid = (uid \<noteq> None)"

section \<open>Task lifecycle store\<close>

datatype db_error =
    RowLevelSecurityViolation
  | NotNullViolation
  | ForeignKeyViolation

subsection \<open>Triggers on \<^verbatim>\<open>tasks\<close>\<close>

text \<open>
  The insert of \<^verbatim>\<open>log_task_status_change\<close> into \<^verbatim>\<open>task_history\<close>. The function is not
  \<^verbatim>\<open>SECURITY DEFINER\<close>, so the insert policy applies; \<^verbatim>\<open>changed_by\<close> is \<^verbatim>\<open>NOT NULL\<close>. Both
  foreign keys hold by construction: \<^verbatim>\<open>task_id\<close> is the row being updated and
  \<^verbatim>\<open>changed_by\<close> was read from \<^verbatim>\<open>profiles\<close>.
\<close>

definition task_history_insert ::
  "database \<Rightarrow> uuid option \<Rightarrow> timestamp \<Rightarrow> uuid \<Rightarrow> task_status option \<Rightarrow> task_status
     \<Rightarrow> uuid option \<Rightarrow> db_error + database" where
  "task_history_insert db uid now tid old new changer =
     (if \<not> task_history_insert_policy uid then Inl RowLevelSecurityViolation
      else case changer of
             None \<Rightarrow> Inl NotNullViolation
           | Some b \<Rightarrow>
               Inr (db\<lparr> task_history := task_history db @
                          [\<lparr> history_id = next_uuid db, task_id = tid, old_status = old,
                             new_status = new, changed_by = b, changed_at = now \<rparr>],
                        next_uuid := Suc (next_uuid db) \<rparr>))"

text \<open>
  \<^verbatim>\<open>log_task_status_change\<close>, \<^verbatim>\<open>BEFORE UPDATE ... FOR EACH ROW\<close>. \<^verbatim>\<open>tasks.status\<close> is
  \<^verbatim>\<open>NOT NULL\<close>, so \<^verbatim>\<open>OLD.status\<close> is a status and \<^verbatim>\<open>IS DISTINCT FROM\<close> is inequality.
\<close>

definition log_task_status_change ::
  "database \<Rightarrow> uuid option \<Rightarrow> timestamp \<Rightarrow> task \<Rightarrow> task \<Rightarrow> db_error + (database \<times> task)" where
  "log_task_status_change db uid now OLD NEW =
     (if status OLD \<noteq> status NEW then
        (case task_history_insert db uid now (task_ident NEW) (Some (status OLD))
                (status NEW) (current_profile_id db uid) of
           Inl e \<Rightarrow> Inl e
         | Inr db' \<Rightarrow>
             Inr (db', if status NEW = finished then NEW\<lparr> completed_at := Some now \<rparr>
                       else if status NEW \<noteq> finished then NEW\<lparr> completed_at := None \<rparr>
                       else NEW))
      else Inr (db, NEW))"

definition update_updated_at_column :: "timestamp \<Rightarrow> task \<Rightarrow> task" where
  "update_updated_at_column now NEW = NEW\<lparr> updated_at := now \<rparr>"

subsection \<open>\<^verbatim>\<open>UPDATE public.tasks SET ... WHERE id = taskId\<close>\<close>

text \<open>The columns an update sets: \<open>None\<close> leaves a column as it is.\<close>

record task_update =
  set_title :: "string option"
  set_description :: "string option option"
  set_assigned_to :: "uuid option"
  set_assigned_by :: "uuid option"
  set_status :: "task_status option"
  set_start_date :: "date option"
  set_deadline_date :: "date option"
  set_completed_at :: "timestamp option option"

definition no_change :: task_update where
  "no_change = \<lparr> set_title = None, set_description = None, set_assigned_to = None,
                 set_assigned_by = None, set_status = None, set_start_date = None,
                 set_deadline_date = None, set_completed_at = None \<rparr>"

definition apply_update :: "task_update \<Rightarrow> task \<Rightarrow> task" where
  "apply_update u t =
     t\<lparr> title := (case set_title u of None \<Rightarrow> title t | Some v \<Rightarrow> v),
        description := (case set_description u of None \<Rightarrow> description t | Some v \<Rightarrow> v),
        assigned_to := (case set_assigned_to u of None \<Rightarrow> assigned_to t | Some v \<Rightarrow> v),
        assigned_by := (case set_assigned_by u of None \<Rightarrow> assigned_by t | Some v \<Rightarrow> v),
        status := (case set_status u of None \<Rightarrow> status t | Some v \<Rightarrow> v),
        start_date := (case set_start_date u of None \<Rightarrow> start_date t | Some v \<Rightarrow> v),
        deadline_date :=
          (case set_deadline_date u of None \<Rightarrow> deadline_date t | Some v \<Rightarrow> v),
        completed_at :=
          (case set_completed_at u of None \<Rightarrow> completed_at t | Some v \<Rightarrow> v) \<rparr>"

text \<open>
  Row by row: a row is updated when it matches the \<^verbatim>\<open>WHERE\<close> clause and passes the
  \<^verbatim>\<open>USING\<close> expressions of the select policy (the \<^verbatim>\<open>WHERE\<close> clause reads the row) and of
  the update policy; the \<^verbatim>\<open>BEFORE UPDATE\<close> triggers run on it in the order of
  their names (\<^verbatim>\<open>log_task_status_change_trigger\<close>, then \<^verbatim>\<open>update_tasks_updated_at\<close>), and
  the policy is checked on the row they return. A foreign key is checked on the new
  row when its column has changed. An error aborts the whole statement. \<open>now\<close> is the server's \<^verbatim>\<open>now()\<close>.
\<close>

fun update_rows ::
  "database \<Rightarrow> uuid option \<Rightarrow> timestamp \<Rightarrow> task_update \<Rightarrow> uuid \<Rightarrow> task list
     \<Rightarrow> db_error + (database \<times> task list)" where
  "update_rows db uid now u tid [] = Inr (db, [])"
| "update_rows db uid now u tid (r # rs) =
     (if task_ident r = tid \<and> tasks_select_policy db uid r \<and> tasks_update_policy db uid r
      then
        (case log_task_status_change db uid now r (apply_update u r) of
           Inl e \<Rightarrow> Inl e
         | Inr (db1, NEW1) \<Rightarrow>
             (let NEW2 = update_updated_at_column now NEW1 in
              if \<not> tasks_update_policy db1 uid NEW2 then Inl RowLevelSecurityViolation
              else if (assigned_to NEW2 \<noteq> assigned_to r
                         \<and> \<not> list_ex (\<lambda>p. profile_id p = assigned_to NEW2) (profiles db1))
                      \<or> (assigned_by NEW2 \<noteq> assigned_by r
                         \<and> \<not> list_ex (\<lambda>p. profile_id p = assigned_by NEW2) (profiles db1))
                   then Inl ForeignKeyViolation
              else (case update_rows db1 uid now u tid rs of
                      Inl e \<Rightarrow> Inl e
                    | Inr (db2, rs') \<Rightarrow> Inr (db2, NEW2 # rs'))))
      else (case update_rows db uid now u tid rs of
              Inl e \<Rightarrow> Inl e
            | Inr (db2, rs') \<Rightarrow> Inr (db2, r # rs')))"

definition update_tasks ::
  "database \<Rightarrow> uuid option \<Rightarrow> timestamp \<Rightarrow> task_update \<Rightarrow> uuid \<Rightarrow> db_error + database" where
  "update_tasks db uid now u tid =
     (case update_rows db uid now u tid (tasks db) of
        Inl e \<Rightarrow> Inl e
      | Inr (db', rs) \<Rightarrow> Inr (db'\<lparr> tasks := rs \<rparr>))"

text \<open>
  \<^verbatim>\<open>updateTaskStatus\<close> of \<^verbatim>\<open>EmployeeDetailsDialog\<close> and of \<^verbatim>\<open>EmployeeDashboard\<close> (the same
  request). \<open>client_now\<close> is the browser's \<^verbatim>\<open>new Date()\<close>, \<open>server_now\<close> the store's
  \<^verbatim>\<open>now()\<close>. \<open>Inl\<close> is the branch of the error toast.
\<close>

definition status_payload :: "task_status \<Rightarrow> timestamp \<Rightarrow> task_update" where
  "status_payload newStatus client_now =
     no_change\<lparr> set_status := Some newStatus,
                 set_completed_at :=
                   Some (if newStatus = finished then Some client_now else None) \<rparr>"

definition updateTaskStatus ::
  "database \<Rightarrow> uuid option \<Rightarrow> timestamp \<Rightarrow> timestamp \<Rightarrow> uuid \<Rightarrow> task_status
     \<Rightarrow> db_error + database" where
  "updateTaskStatus db uid client_now server_now taskId newStatus =
     update_tasks db uid server_now (status_payload newStatus client_now) taskId"

subsection \<open>\<^verbatim>\<open>INSERT INTO public.tasks\<close>\<close>

text \<open>
  The row the client sends: the columns it leaves out take their defaults (\<^verbatim>\<open>id\<close>,
  \<^verbatim>\<open>created_at\<close>, \<^verbatim>\<open>updated_at\<close>) or \<^verbatim>\<open>NULL\<close> (\<^verbatim>\<open>completed_at\<close>, which has no default).
  \<^verbatim>\<open>assigned_by\<close> may be sent as \<^verbatim>\<open>undefined\<close> (\<^verbatim>\<open>profile?.id\<close>), which is \<^verbatim>\<open>NULL\<close>. No
  trigger fires on insert.
\<close>

record task_insert =
  ins_title :: string
  ins_description :: string
  ins_assigned_to :: uuid
  ins_assigned_by :: "uuid option"
  ins_start_date :: date
  ins_deadline_date :: date
  ins_status :: task_status

definition insert_task ::
  "database \<Rightarrow> uuid option \<Rightarrow> timestamp \<Rightarrow> task_insert \<Rightarrow> db_error + database" where
  "insert_task db uid now row =
     (if \<not> tasks_insert_policy db uid then Inl RowLevelSecurityViolation
      else case ins_assigned_by row of
             None \<Rightarrow> Inl NotNullViolation
           | Some assigner \<Rightarrow>
               if \<not> list_ex (\<lambda>p. profile_id p = ins_assigned_to row) (profiles db)
                  \<or> \<not> list_ex (\<lambda>p. profile_id p = assigner) (profiles db)
               then Inl ForeignKeyViolation
               else Inr (db\<lparr> tasks := tasks db @
                              [\<lparr> task_ident = next_uuid db,
                                 title = ins_title row,
                                 description = Some (ins_description row),
                                 assigned_to = ins_assigned_to row,
                                 assigned_by = assigner,
                                 status = ins_status row,
                                 start_date = ins_start_date row,
                                 deadline_date = ins_deadline_date row,
                                 completed_at = None,
                                 created_at = now,
                                 updated_at = now \<rparr>],
                            next_uuid := Suc (next_uuid db) \<rparr>))"

text \<open>
  The form of \<^verbatim>\<open>AddTaskDialog\<close>. The select and the two date inputs hold either the empty
  string (\<open>None\<close>) or a profile id, respectively a valid date.
\<close>

record task_form =
  form_title :: string
  form_description :: string
  form_assigned_to :: "uuid option"
  form_start_date :: "date option"
  form_deadline_date :: "date option"

datatype submit_error =
    RequiredFieldsMissing
  | StartAfterDeadline
  | InsertFailed db_error

text \<open>
  \<^verbatim>\<open>handleSubmit\<close> of \<^verbatim>\<open>AddTaskDialog\<close>; \<open>profile_prop\<close> is the \<^verbatim>\<open>profile\<close> that \<^verbatim>\<open>useAuth()\<close>
  returns (the hook is not part of the sources at hand). \<open>Inl\<close> is an error toast, and
  the store is then as it was.
\<close>

definition handleSubmit ::
  "database \<Rightarrow> uuid option \<Rightarrow> profile option \<Rightarrow> timestamp \<Rightarrow> task_form
     \<Rightarrow> submit_error + database" where
  "handleSubmit db uid profile_prop now formData =
     (case (form_assigned_to formData, form_start_date formData,
            form_deadline_date formData) of
        (Some assignee, Some start, Some deadline) \<Rightarrow>
          if form_title formData = [] then Inl RequiredFieldsMissing
          else if Date_gt (Date_of_date start) (Date_of_date deadline)
          then Inl StartAfterDeadline
          else (case insert_task db uid now
                       \<lparr> ins_title = form_title formData,
                         ins_description = form_description formData,
                         ins_assigned_to = assignee,
                         ins_assigned_by = map_option profile_id profile_prop,
                         ins_start_date = start,
                         ins_deadline_date = deadline,
                         ins_status = not_started \<rparr> of
                  Inl e \<Rightarrow> Inl (InsertFailed e)
                | Inr db' \<Rightarrow> Inr db')
      | _ \<Rightarrow> Inl RequiredFieldsMissing)"

section \<open>Query surface\<close>

text \<open>
  A \<^verbatim>\<open>SELECT\<close> on \<^verbatim>\<open>tasks\<close> returns the rows that pass the select policy. \<^verbatim>\<open>ORDER BY\<close> is
  modelled by a stable sort; the store leaves the order of rows with equal keys open.
\<close>

definition visible_tasks :: "database \<Rightarrow> uuid option \<Rightarrow> task list" where
  "visible_tasks db uid = filter (tasks_select_policy db uid) (tasks db)"

text \<open>\<^verbatim>\<open>fetchTasks\<close> of \<^verbatim>\<open>ManagerDashboard\<close>: \<^verbatim>\<open>.order('created_at', { ascending: false })\<close>.\<close>

definition ManagerDashboard_fetchTasks :: "database \<Rightarrow> uuid option \<Rightarrow> task list" where
  "ManagerDashboard_fetchTasks db uid =
     sort_key (\<lambda>t. - created_at t) (visible_tasks db uid)"

text \<open>
  \<^verbatim>\<open>fetchTasks\<close> of \<^verbatim>\<open>EmployeeDashboard\<close>: \<^verbatim>\<open>.eq('assigned_to', profile.id).order('deadline_date')\<close>.
  Without a profile it returns before any request, and the list on screen stays as it
  is (\<open>None\<close>).
\<close>

definition EmployeeDashboard_fetchTasks ::
  "database \<Rightarrow> uuid option \<Rightarrow> profile option \<Rightarrow> task list option" where
  "EmployeeDashboard_fetchTasks db uid profile_prop =
     (case profile_prop of
        None \<Rightarrow> None
      | Some p \<Rightarrow>
          Some (sort_key deadline_date
                  (filter (\<lambda>t. assigned_to t = profile_id p) (visible_tasks db uid))))"

section \<open>Properties stated about the store\<close>


text \<open>The row of a task and the audit trail of a task, in the order of insertion.\<close>

definition lookup_task :: "database \<Rightarrow> uuid \<Rightarrow> task option" where
  "lookup_task db tid = find (\<lambda>t. task_ident t = tid) (tasks db)"

definition history_of :: "database \<Rightarrow> uuid \<Rightarrow> history_entry list" where
  "history_of db tid = filter (\<lambda>h. task_id h = tid) (task_history db)"

text \<open>
  A sequence of \<open>updateTaskStatus\<close> calls on one task, each with its actor, its two
  clocks and the status it asks for.
\<close>

record update_call =
  call_uid :: "uuid option"
  call_client_now :: timestamp
  call_server_now :: timestamp
  call_status :: task_status

fun run_updates :: "database \<Rightarrow> uuid \<Rightarrow> update_call list \<Rightarrow> db_error + database" where
  "run_updates db tid [] = Inr db"
| "run_updates db tid (c # cs) =
     (case updateTaskStatus db (call_uid c) (call_client_now c) (call_server_now c) tid
             (call_status c) of
        Inl e \<Rightarrow> Inl e
      | Inr db' \<Rightarrow> run_updates db' tid cs)"

text \<open>
  The number of actual transitions of a sequence of calls, as the specification words
  it, from the calls alone: a call is applied when its actor may update the task
  (\<open>applied\<close>), an applied call is an actual transition when the status it asks for
  differs from the old one, and the status it asks for is the old status of the calls
  that follow. A call that is not applied leaves the task as it is.
\<close>

fun actual_transitions :: "(uuid option \<Rightarrow> bool) \<Rightarrow> task_status \<Rightarrow> update_call list \<Rightarrow> nat" where
  "actual_transitions applied old [] = 0"
| "actual_transitions applied old (c # cs) =
     (if applied (call_uid c)
      then (if old \<noteq> call_status c then 1 else 0)
           + actual_transitions applied (call_status c) cs
      else actual_transitions applied old cs)"

text \<open>
  What one status update does, in closed form: the row it writes for each row of the
  table, and the audit entries it appends (\<open>allowed\<close> is the update policy, \<open>actor\<close>
  the profile of the caller, \<open>n\<close> the next free identifier).
\<close>

definition status_row_result ::
  "(task \<Rightarrow> bool) \<Rightarrow> timestamp \<Rightarrow> timestamp \<Rightarrow> uuid \<Rightarrow> task_status \<Rightarrow> task \<Rightarrow> task" where
  "status_row_result allowed client_now server_now tid s r =
     (if task_ident r = tid \<and> allowed r
      then r\<lparr> status := s,
              completed_at :=
                (if s = finished
                 then Some (if status r = s then client_now else server_now) else None),
              updated_at := server_now \<rparr>
      else r)"

fun status_log_entries ::
  "(task \<Rightarrow> bool) \<Rightarrow> uuid \<Rightarrow> timestamp \<Rightarrow> uuid \<Rightarrow> task_status \<Rightarrow> uuid \<Rightarrow> task list
     \<Rightarrow> history_entry list" where
  "status_log_entries allowed actor now tid s n [] = []"
| "status_log_entries allowed actor now tid s n (r # rs) =
     (if task_ident r = tid \<and> allowed r \<and> status r \<noteq> s
      then \<lparr> history_id = n, task_id = tid, old_status = Some (status r), new_status = s,
             changed_by = actor, changed_at = now \<rparr>
           # status_log_entries allowed actor now tid s (Suc n) rs
      else status_log_entries allowed actor now tid s n rs)"

section \<open>A small store for concrete runs\<close>

text \<open>
  The two seeded accounts of the migration (the administrator and the test employee)
  and a deactivated employee; no task yet.
\<close>

definition demo_manager :: profile where
  "demo_manager = \<lparr> profile_id = 1, user_id = 11, username = ''admin'',
     full_name = ''Administrator'', profile_title = Some ''System Administrator'',
     role = manager, position = Some ''Senior Manager'', details = None,
     is_active = True \<rparr>"

definition demo_employee :: profile where
  "demo_employee = \<lparr> profile_id = 2, user_id = 12, username = ''test'',
     full_name = ''Test Employee'', profile_title = Some ''Software Developer'',
     role = employee, position = Some ''Junior Developer'', details = None,
     is_active = True \<rparr>"

definition demo_inactive :: profile where
  "demo_inactive = \<lparr> profile_id = 3, user_id = 13, username = ''former'',
     full_name = ''Former Employee'', profile_title = None,
     role = employee, position = None, details = None, is_active = False \<rparr>"

definition demo_db :: database where
  "demo_db = \<lparr> profiles = [demo_manager, demo_employee, demo_inactive], tasks = [],
     task_history = [], next_uuid = 100 \<rparr>"

definition demo_form :: "uuid \<Rightarrow> date \<Rightarrow> date \<Rightarrow> task_form" where
  "demo_form assignee start deadline = \<lparr> form_title = ''Report'', form_description = [],
     form_assigned_to = Some assignee, form_start_date = Some start,
     form_deadline_date = Some deadline \<rparr>"

text \<open>The row that submitting \<open>demo_form assignee 5 10\<close> at instant 1000 creates.\<close>

definition demo_task :: "uuid \<Rightarrow> task" where
  "demo_task assignee = \<lparr> task_ident = 100, title = ''Report'', description = Some [],
     assigned_to = assignee, assigned_by = 1, status = not_started, start_date = 5,
     deadline_date = 10, completed_at = None, created_at = 1000, updated_at = 1000 \<rparr>"

definition demo_created :: database where
  "demo_created = demo_db\<lparr> tasks := [demo_task 2], next_uuid := 101 \<rparr>"

definition demo_started :: database where
  "demo_started = demo_created
     \<lparr> tasks := [(demo_task 2)\<lparr> status := in_progress, updated_at := 2001 \<rparr>],
       task_history := [\<lparr> history_id = 101, task_id = 100, old_status = Some not_started,
                          new_status = in_progress, changed_by = 2, changed_at = 2001 \<rparr>],
       next_uuid := 102 \<rparr>"

definition demo_finished :: database where
  "demo_finished = demo_started
     \<lparr> tasks := [(demo_task 2)\<lparr> status := finished, completed_at := Some 3001,
                                updated_at := 3001 \<rparr>],
       task_history := task_history demo_started @
                       [\<lparr> history_id = 102, task_id = 100, old_status = Some in_progress,
                          new_status = finished, changed_by = 2, changed_at = 3001 \<rparr>],
       next_uuid := 103 \<rparr>"

definition demo_calls :: "update_call list" where
  "demo_calls =
     [\<lparr> call_uid = Some 12, call_client_now = 2000, call_server_now = 2001,
        call_status = in_progress \<rparr>,
      \<lparr> call_uid = Some 12, call_client_now = 2500, call_server_now = 2501,
        call_status = in_progress \<rparr>,
      \<lparr> call_uid = Some 13, call_client_now = 2600, call_server_now = 2601,
        call_status = not_started \<rparr>,
      \<lparr> call_uid = Some 12, call_client_now = 3000, call_server_now = 3001,
        call_status = finished \<rparr>]"

definition demo_later_task :: task where
  "demo_later_task = \<lparr> task_ident = 101, title = ''Audit'', description = Some [],
     assigned_to = 2, assigned_by = 1, status = not_started, start_date = 12,
     deadline_date = 20, completed_at = None, created_at = 2000, updated_at = 2000 \<rparr>"

definition demo_listing_db :: database where
  "demo_listing_db = demo_db\<lparr> tasks := [demo_task 2, demo_later_task], next_uuid := 102 \<rparr>"

text \<open>
  Forty tasks of the test employee, numbered from 100: twenty-three finished before
  the deadline, and seventeen either not started or finished after it.
\<close>

definition numbered_task :: "task_status \<Rightarrow> timestamp option \<Rightarrow> nat \<Rightarrow> task" where
  "numbered_task s c i =
     (demo_task 2)\<lparr> task_ident := 100 + i, status := s, completed_at := c \<rparr>"

definition demo_workload :: "task list" where
  "demo_workload = map (numbered_task finished (Some 500000000)) [0..<23]
                   @ map (numbered_task not_started None) [23..<40]"

definition demo_finished_workload :: "task list" where
  "demo_finished_workload = map (numbered_task finished (Some 500000000)) [0..<23]
                   @ map (numbered_task finished (Some 1000000000)) [23..<40]"


section \<open>Creating a task\<close>

lemmas demo_defs = demo_manager_def demo_employee_def demo_inactive_def demo_db_def
  demo_form_def demo_task_def

lemmas policy_defs = current_profile_id_def is_manager_def tasks_select_policy_def
  tasks_insert_policy_def tasks_update_policy_def task_history_insert_policy_def

lemma demo_submit:
  "handleSubmit demo_db (Some 11) (Some demo_manager) 1000 (demo_form a 5 10) =
     (if a = 1 \<or> a = 2 \<or> a = 3
      then Inr (demo_db\<lparr> tasks := [demo_task a], next_uuid := 101 \<rparr>)
      else Inl (InsertFailed ForeignKeyViolation))"
  by (simp add: handleSubmit_def insert_task_def demo_defs policy_defs Date_of_date_def
        Date_gt_def valid_time_value_def)

text \<open>
  C10. Every task that \<open>handleSubmit\<close> creates is appended with status \<open>not_started\<close> and
  a null \<open>completed_at\<close>, whatever the form, the actor and the clock.
\<close>

theorem handleSubmit_new_task_not_started:
  assumes "handleSubmit db uid profile_prop now formData = Inr db'"
  shows "\<exists>t. tasks db' = tasks db @ [t] \<and> status t = not_started \<and> completed_at t = None"
  using assms
  by (auto simp: handleSubmit_def insert_task_def split: option.splits if_splits sum.splits)

theorem handleSubmit_new_task_not_started_witness:
  "handleSubmit demo_db (Some 11) (Some demo_manager) 1000 (demo_form 2 5 10) =
     Inr (demo_db\<lparr> tasks := [demo_task 2], next_uuid := 101 \<rparr>)
   \<and> (\<exists>t. tasks (demo_db\<lparr> tasks := [demo_task 2], next_uuid := 101 \<rparr>) = tasks demo_db @ [t]
          \<and> status t = not_started \<and> completed_at t = None)"
  using handleSubmit_new_task_not_started
    [of demo_db "Some 11" "Some demo_manager" 1000 "demo_form 2 5 10"
        "demo_db\<lparr> tasks := [demo_task 2], next_uuid := 101 \<rparr>"]
  by (simp add: demo_submit)




section \<open>Listing tasks\<close>

text \<open>
  C9, as the claim states it, fails for the manager's listing: it is ordered by
  creation time, newest first, and a task created later with a later deadline comes
  first.
\<close>

theorem ManagerDashboard_fetchTasks_counterexample:
  "\<not> sorted (map deadline_date (ManagerDashboard_fetchTasks demo_listing_db (Some 11)))"
  by (simp add: ManagerDashboard_fetchTasks_def visible_tasks_def demo_listing_db_def
        demo_later_task_def demo_defs policy_defs)

text \<open>
  C9, amended. The employee's listing holds the tasks assigned to the profile that the
  caller may see, ordered by deadline date ascending (and nothing is fetched without a
  profile); the manager's listing holds the tasks the caller may see, ordered by
  creation time descending.
\<close>

theorem fetchTasks_order:
  "(case EmployeeDashboard_fetchTasks db uid profile_prop of
      None \<Rightarrow> profile_prop = None
    | Some ts \<Rightarrow> sorted (map deadline_date ts)
        \<and> set ts = {t \<in> set (tasks db). tasks_select_policy db uid t
                       \<and> assigned_to t = profile_id (the profile_prop)})
   \<and> sorted_wrt (\<lambda>a b. b \<le> a) (map created_at (ManagerDashboard_fetchTasks db uid))
   \<and> set (ManagerDashboard_fetchTasks db uid)
       = {t \<in> set (tasks db). tasks_select_policy db uid t}"
proof -
  have "sorted (map (\<lambda>t. - created_at t) (ManagerDashboard_fetchTasks db uid))"
    unfolding ManagerDashboard_fetchTasks_def by (rule sorted_sort_key)
  then have "sorted_wrt (\<lambda>a b. b \<le> a) (map created_at (ManagerDashboard_fetchTasks db uid))"
    by (simp add: sorted_wrt_map)
  then show ?thesis
    by (auto simp: EmployeeDashboard_fetchTasks_def ManagerDashboard_fetchTasks_def
          visible_tasks_def split: option.splits)
qed

theorem fetchTasks_order_witness:
  "EmployeeDashboard_fetchTasks demo_listing_db (Some 12) (Some demo_employee)
     = Some [demo_task 2, demo_later_task]
   \<and> sorted (map deadline_date [demo_task 2, demo_later_task])
   \<and> ManagerDashboard_fetchTasks demo_listing_db (Some 11) = [demo_later_task, demo_task 2]
   \<and> sorted_wrt (\<lambda>a b. b \<le> a) (map created_at [demo_later_task, demo_task 2])"
proof -
  have e: "EmployeeDashboard_fetchTasks demo_listing_db (Some 12) (Some demo_employee)
             = Some [demo_task 2, demo_later_task]"
    by (simp add: EmployeeDashboard_fetchTasks_def visible_tasks_def demo_listing_db_def
          demo_later_task_def demo_defs policy_defs)
  have m: "ManagerDashboard_fetchTasks demo_listing_db (Some 11)
             = [demo_later_task, demo_task 2]"
    by (simp add: ManagerDashboard_fetchTasks_def visible_tasks_def demo_listing_db_def
          demo_later_task_def demo_defs policy_defs)
  from fetchTasks_order [where db = demo_listing_db and uid = "Some 12"
      and profile_prop = "Some demo_employee"]
  have "sorted (map deadline_date [demo_task 2, demo_later_task])"
    by (simp add: e)
  moreover from fetchTasks_order [where db = demo_listing_db and uid = "Some 11"
      and profile_prop = None]
  have "sorted_wrt (\<lambda>a b. b \<le> a) (map created_at [demo_later_task, demo_task 2])"
    by (simp add: m)
  ultimately show ?thesis using e m by simp
qed

section \<open>Metrics\<close>

text \<open>The three sets of the specification's examples, and a single finished task.\<close>

lemma completionRate_examples:
  "completionRate (getTaskStats []) = 0"
  "completionRate (getTaskStats [numbered_task finished (Some 500000000) 0,
                                 numbered_task finished (Some 500000000) 1]) = 100"
  "completionRate (getTaskStats [numbered_task finished (Some 500000000) 0,
                                 numbered_task not_started None 1]) = 50"
  by code_simp+

lemma onTimeRate_examples:
  "onTimeRate (getTaskStats []) = 0"
  "onTimeRate (getTaskStats [numbered_task finished (Some 500000000) 0]) = 100"
  "onTimeRate (getTaskStats [numbered_task finished (Some 1000000000) 0]) = 0"
  "onTimeRate (getTaskStats [numbered_task finished (Some 500000000) 0,
                             numbered_task finished (Some 1000000000) 1]) = 50"
  by code_simp+

lemma demo_workload_well_formed:
  "distinct (map task_ident demo_workload)"
  "distinct (map task_ident demo_finished_workload)"
  by code_simp+

lemma demo_workload_rates:
  "completionRate (getTaskStats demo_workload) = 57"
  "progress_percentage (getEmployeeProgress demo_workload 2) = 57"
  "spec_completionRate demo_workload = 58"
  by code_simp+

lemma demo_finished_workload_rates:
  "onTimeRate (getTaskStats demo_finished_workload) = 57"
  "getOnTimeCompletionRate demo_finished_workload 2 = 57"
  "spec_onTimeRate demo_finished_workload = 58"
  by code_simp+

text \<open>
  C6. With 23 finished tasks out of 40 the exact rate is 57.5, which round-half-up
  takes to 58; the double quotient \<open>23 / 40\<close> times \<open>100\<close> is \<open>57.49999999999999\<close>, and
  both \<open>getTaskStats\<close> and \<open>getEmployeeProgress\<close> return 57.
\<close>

theorem completionRate_tie_rounds_down:
  "completionRate (getTaskStats demo_workload) = 57
   \<and> progress_percentage (getEmployeeProgress demo_workload 2) = 57
   \<and> spec_completionRate demo_workload = 58"
  by (simp add: demo_workload_rates)

text \<open>
  C7. With 23 of 40 finished tasks completed by the deadline the exact rate is 57.5,
  which round-half-up takes to 58; \<open>getTaskStats\<close> and \<open>getOnTimeCompletionRate\<close>
  return 57, by the same double arithmetic.
\<close>

theorem onTimeRate_tie_rounds_down:
  "onTimeRate (getTaskStats demo_finished_workload) = 57
   \<and> getOnTimeCompletionRate demo_finished_workload 2 = 57
   \<and> spec_onTimeRate demo_finished_workload = 58"
  by (simp add: demo_finished_workload_rates)

section \<open>Status updates\<close>

subsection \<open>One update in closed form\<close>

lemma tasks_select_policy_update [simp]:
  "tasks_select_policy db uid r = tasks_update_policy db uid r"
  by (auto simp: tasks_select_policy_def tasks_update_policy_def)

lemma policy_history_irrelevant [simp]:
  "tasks_update_policy (db\<lparr> task_history := h, next_uuid := n \<rparr>) uid = tasks_update_policy db uid"
  "current_profile_id (db\<lparr> task_history := h, next_uuid := n \<rparr>) uid = current_profile_id db uid"
  by (simp_all add: fun_eq_iff policy_defs cong: option.case_cong)

lemma tasks_update_policy_fields [simp]:
  "tasks_update_policy db uid (x\<lparr>updated_at := t\<rparr>) = tasks_update_policy db uid x"
  "tasks_update_policy db uid (x\<lparr>completed_at := c\<rparr>) = tasks_update_policy db uid x"
  "tasks_update_policy db uid (x\<lparr>status := st\<rparr>) = tasks_update_policy db uid x"
  by (simp_all add: policy_defs)

lemma update_policy_actor:
  assumes "tasks_update_policy db uid r"
  shows "\<exists>u b. uid = Some u \<and> current_profile_id db uid = Some b"
proof -
  from assms consider (mgr) "is_manager db uid"
    | (own) "current_profile_id db uid = Some (assigned_to r)"
    by (auto simp: tasks_update_policy_def)
  then show ?thesis
  proof cases
    case mgr
    then obtain u where u: "uid = Some u"
      and ex: "list_ex (\<lambda>p. user_id p = u \<and> role p = manager) (profiles db)"
      by (cases uid) (simp_all add: is_manager_def)
    from ex have "find (\<lambda>p. user_id p = u) (profiles db) \<noteq> None"
      by (auto simp: list_ex_iff find_None_iff)
    with u show ?thesis by (auto simp: current_profile_id_def)
  next
    case own
    then show ?thesis by (cases uid) (auto simp: current_profile_id_def)
  qed
qed

lemma apply_status_payload:
  "apply_update (status_payload s cn) r =
     r\<lparr> status := s, completed_at := (if s = finished then Some cn else None) \<rparr>"
  by (simp add: apply_update_def status_payload_def no_change_def)

lemma status_row_result_fields [simp]:
  "assigned_to (status_row_result a cn now tid s r) = assigned_to r"
  "assigned_by (status_row_result a cn now tid s r) = assigned_by r"
  "task_ident (status_row_result a cn now tid s r) = task_ident r"
  "tasks_update_policy db uid (status_row_result a cn now tid s r) = tasks_update_policy db uid r"
  by (simp_all add: status_row_result_def policy_defs)

lemma trigger_same_status:
  assumes "task_ident r = tid" "tasks_update_policy db uid r" "status r = s"
  shows "log_task_status_change db uid now r (apply_update (status_payload s cn) r) =
           Inr (db, apply_update (status_payload s cn) r)"
    and "update_updated_at_column now (apply_update (status_payload s cn) r) =
           status_row_result (tasks_update_policy db uid) cn now tid s r"
  using assms
  by (simp_all add: log_task_status_change_def apply_status_payload
        update_updated_at_column_def status_row_result_def)

lemma trigger_new_status:
  assumes "task_ident r = tid" "tasks_update_policy db uid r" "status r \<noteq> s"
    and "uid \<noteq> None" "current_profile_id db uid = Some b"
  shows "\<exists>NEW1. log_task_status_change db uid now r (apply_update (status_payload s cn) r) =
           Inr (db\<lparr> task_history := task_history db @
                      [\<lparr> history_id = next_uuid db, task_id = tid,
                         old_status = Some (status r), new_status = s, changed_by = b,
                         changed_at = now \<rparr>],
                    next_uuid := Suc (next_uuid db) \<rparr>, NEW1)
         \<and> update_updated_at_column now NEW1 =
             status_row_result (tasks_update_policy db uid) cn now tid s r"
  using assms
  by (auto simp: log_task_status_change_def apply_status_payload
        task_history_insert_def task_history_insert_policy_def
        update_updated_at_column_def status_row_result_def)

lemma update_rows_status:
  "update_rows db uid now (status_payload s cn) tid rs =
     Inr (db\<lparr> task_history := task_history db @
                 status_log_entries (tasks_update_policy db uid)
                   (the (current_profile_id db uid)) now tid s (next_uuid db) rs,
              next_uuid := next_uuid db + length
                 (status_log_entries (tasks_update_policy db uid)
                   (the (current_profile_id db uid)) now tid s (next_uuid db) rs) \<rparr>,
          map (status_row_result (tasks_update_policy db uid) cn now tid s) rs)"
proof (induction rs arbitrary: db)
  case Nil
  show ?case by simp
next
  case (Cons r rs)
  show ?case
  proof (cases "task_ident r = tid \<and> tasks_update_policy db uid r")
    case False
    then show ?thesis
      by (auto simp: Cons.IH status_row_result_def)
  next
    case True
    then obtain b where actor: "uid \<noteq> None" "current_profile_id db uid = Some b"
      using update_policy_actor by blast
    show ?thesis
    proof (cases "status r = s")
      case same: True
      from True same have
        "log_task_status_change db uid now r (apply_update (status_payload s cn) r) =
           Inr (db, apply_update (status_payload s cn) r)"
        "update_updated_at_column now (apply_update (status_payload s cn) r) =
           status_row_result (tasks_update_policy db uid) cn now tid s r"
        by (simp_all add: trigger_same_status)
      with True same show ?thesis
        by (simp add: Cons.IH Let_def)
    next
      case diff: False
      from True diff actor obtain NEW1 where
        "log_task_status_change db uid now r (apply_update (status_payload s cn) r) =
           Inr (db\<lparr> task_history := task_history db @
                      [\<lparr> history_id = next_uuid db, task_id = tid,
                         old_status = Some (status r), new_status = s, changed_by = b,
                         changed_at = now \<rparr>],
                    next_uuid := Suc (next_uuid db) \<rparr>, NEW1)"
        "update_updated_at_column now NEW1 =
           status_row_result (tasks_update_policy db uid) cn now tid s r"
        using trigger_new_status by blast
      with True diff actor show ?thesis
        by (simp add: Cons.IH Let_def)
    qed
  qed
qed


lemma updateTaskStatus_eq:
  "updateTaskStatus db uid cn sn tid s =
     Inr (db\<lparr> task_history := task_history db @
                 status_log_entries (tasks_update_policy db uid)
                   (the (current_profile_id db uid)) sn tid s (next_uuid db) (tasks db),
              next_uuid := next_uuid db + length
                 (status_log_entries (tasks_update_policy db uid)
                   (the (current_profile_id db uid)) sn tid s (next_uuid db) (tasks db)),
              tasks := map (status_row_result (tasks_update_policy db uid) cn sn tid s)
                         (tasks db) \<rparr>)"
  by (simp add: updateTaskStatus_def update_tasks_def update_rows_status)



subsection \<open>Completion timestamp\<close>

lemmas update_defs = updateTaskStatus_def update_tasks_def log_task_status_change_def
  task_history_insert_def update_updated_at_column_def apply_update_def status_payload_def
  no_change_def

lemmas demo_store_defs = demo_created_def demo_started_def demo_finished_def

lemma demo_start: "updateTaskStatus demo_created (Some 12) 2000 2001 100 in_progress = Inr demo_started"
  by (simp add: update_defs demo_store_defs demo_defs policy_defs)


lemma demo_refinish:
  "updateTaskStatus demo_finished (Some 12) 4000 4001 100 finished =
     Inr (demo_finished\<lparr> tasks := [(demo_task 2)\<lparr> status := finished,
            completed_at := Some 4000, updated_at := 4001 \<rparr>] \<rparr>)"
  by (simp add: update_defs demo_store_defs demo_defs policy_defs)




text \<open>
  C3. A task finished at 3001 whose status is set to \<open>finished\<close> again: no audit entry
  is appended, but \<open>completed_at\<close> becomes 4000, the client's clock of the second
  call. The trigger leaves \<open>completed_at\<close> alone when the status is the same; the
  request itself carries the new value.
\<close>

theorem refinish_overwrites_completed_at:
  "map completed_at (tasks demo_finished) = [Some 3001]
   \<and> map status (tasks demo_finished) = [finished]
   \<and> updateTaskStatus demo_finished (Some 12) 4000 4001 100 finished =
       Inr (demo_finished\<lparr> tasks := [(demo_task 2)\<lparr> status := finished,
              completed_at := Some 4000, updated_at := 4001 \<rparr>] \<rparr>)"
  by (simp add: demo_refinish) (simp add: demo_store_defs demo_defs)

subsection \<open>What the update policy lets an employee change\<close>

lemma demo_edit_deadline:
  "update_tasks demo_created (Some 12) 2001 (no_change\<lparr> set_deadline_date := Some 20 \<rparr>) 100 =
     Inr (demo_created\<lparr> tasks := [(demo_task 2)\<lparr> deadline_date := 20, updated_at := 2001 \<rparr>] \<rparr>)"
  by (simp add: update_defs demo_store_defs demo_defs policy_defs)

lemma demo_edit_more:
  "update_tasks demo_created (Some 12) 2001 (no_change\<lparr> set_start_date := Some 1 \<rparr>) 100 =
     Inr (demo_created\<lparr> tasks := [(demo_task 2)\<lparr> start_date := 1, updated_at := 2001 \<rparr>] \<rparr>)"
  "update_tasks demo_created (Some 12) 2001 (no_change\<lparr> set_assigned_by := Some 2 \<rparr>) 100 =
     Inr (demo_created\<lparr> tasks := [(demo_task 2)\<lparr> assigned_by := 2, updated_at := 2001 \<rparr>] \<rparr>)"
  "update_tasks demo_created (Some 12) 2001 (no_change\<lparr> set_assigned_to := Some 3 \<rparr>) 100 =
     Inl RowLevelSecurityViolation"
  by (simp_all add: update_defs demo_store_defs demo_defs policy_defs)

text \<open>
  C2. The test employee changes the deadline date, the start date and the assigner of
  the task assigned to them, and the store accepts each update: the update policy
  reads \<open>assigned_to\<close> and nothing else. Only handing the task to another profile is
  refused, the new row failing the same expression.
\<close>

theorem employee_edits_own_task:
  "role demo_employee = employee \<and> user_id demo_employee = 12
   \<and> map assigned_to (tasks demo_created) = [profile_id demo_employee]
   \<and> update_tasks demo_created (Some 12) 2001 (no_change\<lparr> set_deadline_date := Some 20 \<rparr>) 100 =
       Inr (demo_created\<lparr> tasks := [(demo_task 2)\<lparr> deadline_date := 20,
                                                     updated_at := 2001 \<rparr>] \<rparr>)
   \<and> update_tasks demo_created (Some 12) 2001 (no_change\<lparr> set_start_date := Some 1 \<rparr>) 100 =
       Inr (demo_created\<lparr> tasks := [(demo_task 2)\<lparr> start_date := 1,
                                                     updated_at := 2001 \<rparr>] \<rparr>)
   \<and> update_tasks demo_created (Some 12) 2001 (no_change\<lparr> set_assigned_by := Some 2 \<rparr>) 100 =
       Inr (demo_created\<lparr> tasks := [(demo_task 2)\<lparr> assigned_by := 2,
                                                     updated_at := 2001 \<rparr>] \<rparr>)
   \<and> update_tasks demo_created (Some 12) 2001 (no_change\<lparr> set_assigned_to := Some 3 \<rparr>) 100 =
       Inl RowLevelSecurityViolation"
  by (simp add: demo_edit_deadline demo_edit_more) (simp add: demo_store_defs demo_defs)

subsection \<open>Audit trail\<close>

lemma find_map_row:
  "(\<And>x. P (f x) = P x) \<Longrightarrow> find P (map f xs) = map_option f (find P xs)"
  by (induction xs) simp_all

lemma status_log_entries_absent:
  "tid \<notin> task_ident ` set rs \<Longrightarrow> status_log_entries a b now tid s n rs = []"
  by (induction rs arbitrary: n) auto

lemma status_log_entries_distinct:
  "distinct (map task_ident rs) \<Longrightarrow>
   status_log_entries a b now tid s n rs =
     (case find (\<lambda>r. task_ident r = tid) rs of
        None \<Rightarrow> []
      | Some r \<Rightarrow>
          if a r \<and> status r \<noteq> s
          then [\<lparr> history_id = n, task_id = tid, old_status = Some (status r),
                  new_status = s, changed_by = b, changed_at = now \<rparr>]
          else [])"
  by (induction rs arbitrary: n) (auto simp: status_log_entries_absent)

lemma status_log_entries_task_id:
  "h \<in> set (status_log_entries a b now tid s n rs) \<Longrightarrow> task_id h = tid"
  by (induction rs arbitrary: n) (auto split: if_splits)

lemma updateTaskStatus_step:
  assumes "distinct (map task_ident (tasks db))"
  shows "\<exists>db'. updateTaskStatus db uid cn sn tid s = Inr db'
    \<and> distinct (map task_ident (tasks db'))
    \<and> history_of db' tid = history_of db tid @
         (case lookup_task db tid of
            None \<Rightarrow> []
          | Some r \<Rightarrow>
              if tasks_update_policy db uid r \<and> status r \<noteq> s
              then [\<lparr> history_id = next_uuid db, task_id = tid, old_status = Some (status r),
                      new_status = s, changed_by = the (current_profile_id db uid),
                      changed_at = sn \<rparr>]
              else [])
    \<and> map_option status (lookup_task db' tid) =
         map_option (\<lambda>r. if tasks_update_policy db uid r then s else status r)
           (lookup_task db tid)"
proof -
  let ?f = "status_row_result (tasks_update_policy db uid) cn sn tid s"
  let ?E = "status_log_entries (tasks_update_policy db uid)
              (the (current_profile_id db uid)) sn tid s (next_uuid db) (tasks db)"
  obtain db' where db': "updateTaskStatus db uid cn sn tid s = Inr db'"
    and rows: "tasks db' = map ?f (tasks db)"
    and hist: "task_history db' = task_history db @ ?E"
    by (simp add: updateTaskStatus_eq)
  have ids: "map task_ident (tasks db') = map task_ident (tasks db)"
    by (simp add: rows comp_def)
  have "filter (\<lambda>h. task_id h = tid) ?E = ?E"
    by (simp add: filter_id_conv status_log_entries_task_id)
  then have h: "history_of db' tid = history_of db tid @ ?E"
    by (simp add: history_of_def hist)
  have l: "lookup_task db' tid = map_option ?f (lookup_task db tid)"
    by (simp add: lookup_task_def rows find_map_row)
  have "map_option status (lookup_task db' tid) =
         map_option (\<lambda>r. if tasks_update_policy db uid r then s else status r)
           (lookup_task db tid)"
  proof (cases "lookup_task db tid")
    case None
    then show ?thesis by (simp add: l)
  next
    case (Some r)
    then have "task_ident r = tid"
      by (auto simp: lookup_task_def find_Some_iff)
    with Some show ?thesis by (simp add: l status_row_result_def)
  qed
  with db' ids h assms show ?thesis
    by (simp add: status_log_entries_distinct lookup_task_def)
qed


lemma updateTaskStatus_policy_stable:
  "\<exists>db'. updateTaskStatus db uid cn sn tid s = Inr db'
     \<and> profiles db' = profiles db
     \<and> map_option assigned_to (lookup_task db' tid)
         = map_option assigned_to (lookup_task db tid)"
proof -
  let ?f = "status_row_result (tasks_update_policy db uid) cn sn tid s"
  obtain db' where db': "updateTaskStatus db uid cn sn tid s = Inr db'"
    and rows: "tasks db' = map ?f (tasks db)" and prof: "profiles db' = profiles db"
    by (simp add: updateTaskStatus_eq)
  have "lookup_task db' tid = map_option ?f (lookup_task db tid)"
    by (simp add: lookup_task_def rows find_map_row)
  then have "map_option assigned_to (lookup_task db' tid)
         = map_option assigned_to (lookup_task db tid)"
    by (simp add: option.map_comp comp_def)
  with db' prof show ?thesis by blast
qed

lemma tasks_update_policy_cong:
  "profiles db1 = profiles db \<Longrightarrow> assigned_to r1 = assigned_to r \<Longrightarrow>
     tasks_update_policy db1 uid r1 = tasks_update_policy db uid r"
  by (simp add: policy_defs cong: option.case_cong)

text \<open>
  A call that asks for the status the task already has appends nothing to its audit
  trail, and neither does a call on a task the actor may not update.
\<close>

lemma same_status_appends_nothing:
  assumes "distinct (map task_ident (tasks db))" and "lookup_task db tid = Some r"
    and "status r = s \<or> \<not> tasks_update_policy db uid r"
  shows "\<exists>db'. updateTaskStatus db uid cn sn tid s = Inr db'
           \<and> history_of db' tid = history_of db tid"
  using updateTaskStatus_step [OF assms(1), of uid cn sn tid s] assms(2,3) by auto

lemma demo_history:
  "history_of demo_created 100 = []"
  "history_of demo_started 100 = [\<lparr> history_id = 101, task_id = 100,
      old_status = Some not_started, new_status = in_progress, changed_by = 2, changed_at = 2001 \<rparr>]"
  "lookup_task demo_created 100 = Some (demo_task 2)"
  "distinct (map task_ident (tasks demo_created))"
  by (simp_all add: history_of_def lookup_task_def demo_store_defs demo_defs)

lemma demo_applied:
  "tasks_update_policy demo_created (Some 12) (demo_task 2)"
  "\<not> tasks_update_policy demo_created (Some 13) (demo_task 2)"
  by (simp_all add: demo_store_defs demo_defs policy_defs)

lemma demo_run:
  "run_updates demo_created 100 demo_calls = Inr demo_finished"
  "actual_transitions (\<lambda>uid. tasks_update_policy demo_created uid (demo_task 2))
     not_started demo_calls = 2"
  "history_of demo_finished 100 = task_history demo_finished"
  "length (task_history demo_finished) = 2"
  "status (demo_task 2) = not_started"
  by (simp_all add: demo_calls_def demo_applied)
     (simp_all add: update_defs demo_store_defs demo_defs policy_defs history_of_def)

text \<open>
  C4. Primary keys being distinct, any sequence of status updates on one task
  succeeds, and the audit trail of the task grows by exactly the number of actual
  transitions among the calls: one entry for each applied call whose new status
  differs from the old one, none for a call that asks for the status the task has. A
  call by an actor who may not update the task is not applied: it changes neither the
  task nor its trail.
\<close>

theorem history_length_counts_transitions:
  assumes "distinct (map task_ident (tasks db))" and "lookup_task db tid = Some r"
  shows "\<exists>db'. run_updates db tid cs = Inr db'
           \<and> length (history_of db' tid)
               = length (history_of db tid)
                 + actual_transitions (\<lambda>uid. tasks_update_policy db uid r) (status r) cs"
  using assms
proof (induction cs arbitrary: db r)
  case Nil
  show ?case by simp
next
  case (Cons c cs)
  let ?s = "call_status c" and ?uid = "call_uid c"
  from updateTaskStatus_step [OF Cons.prems(1), of ?uid "call_client_now c"
      "call_server_now c" tid ?s] Cons.prems(2)
  obtain db1 where upd: "updateTaskStatus db ?uid (call_client_now c) (call_server_now c)
        tid ?s = Inr db1"
    and d1: "distinct (map task_ident (tasks db1))"
    and h1: "history_of db1 tid = history_of db tid @
          (if tasks_update_policy db ?uid r \<and> status r \<noteq> ?s
           then [\<lparr> history_id = next_uuid db, task_id = tid, old_status = Some (status r),
                   new_status = ?s, changed_by = the (current_profile_id db ?uid),
                   changed_at = call_server_now c \<rparr>]
           else [])"
    and s1: "map_option status (lookup_task db1 tid) =
          Some (if tasks_update_policy db ?uid r then ?s else status r)"
    by auto
  from updateTaskStatus_policy_stable [of db ?uid "call_client_now c" "call_server_now c"
      tid ?s] upd Cons.prems(2)
  have p1: "profiles db1 = profiles db"
    and a1: "map_option assigned_to (lookup_task db1 tid) = Some (assigned_to r)"
    by auto
  from s1 a1 obtain r1 where r1: "lookup_task db1 tid = Some r1"
    and st1: "status r1 = (if tasks_update_policy db ?uid r then ?s else status r)"
    and as1: "assigned_to r1 = assigned_to r"
    by auto
  have same: "(\<lambda>uid. tasks_update_policy db1 uid r1) = (\<lambda>uid. tasks_update_policy db uid r)"
    using tasks_update_policy_cong [OF p1 as1] by (simp add: fun_eq_iff)
  from Cons.IH [OF d1 r1] obtain db' where run: "run_updates db1 tid cs = Inr db'"
    and len: "length (history_of db' tid)
               = length (history_of db1 tid)
                 + actual_transitions (\<lambda>uid. tasks_update_policy db uid r) (status r1) cs"
    unfolding same by blast
  show ?case
  proof (cases "tasks_update_policy db ?uid r")
    case True
    with upd run len h1 st1 show ?thesis by auto
  next
    case False
    with upd run len h1 st1 show ?thesis by auto
  qed
qed

theorem history_length_counts_transitions_witness:
  "distinct (map task_ident (tasks demo_created))
   \<and> lookup_task demo_created 100 = Some (demo_task 2)
   \<and> run_updates demo_created 100 demo_calls = Inr demo_finished
   \<and> actual_transitions (\<lambda>uid. tasks_update_policy demo_created uid (demo_task 2))
        not_started demo_calls = 2
   \<and> length (history_of demo_finished 100) = length (history_of demo_created 100) + 2"
  using history_length_counts_transitions [OF demo_history(4) demo_history(3), of demo_calls]
  by (simp add: demo_run demo_history)

text \<open>
  C5, as the claim states it, fails: the first entry of the task created from
  \<open>demo_form\<close> records the previous status \<open>not_started\<close>, not null.
\<close>

theorem first_history_entry_counterexample:
  "updateTaskStatus demo_created (Some 12) 2000 2001 100 in_progress = Inr demo_started
   \<and> history_of demo_created 100 = []
   \<and> old_status (hd (history_of demo_started 100)) = Some not_started"
  by (simp add: demo_start demo_history)

lemma first_entry_stable:
  assumes "distinct (map task_ident (tasks db))" "history_of db tid \<noteq> []"
    and "run_updates db tid cs = Inr db'"
  shows "hd (history_of db' tid) = hd (history_of db tid)"
  using assms
proof (induction cs arbitrary: db)
  case Nil
  then show ?case by simp
next
  case (Cons c cs)
  from updateTaskStatus_step [OF Cons.prems(1), of "call_uid c" "call_client_now c"
      "call_server_now c" tid "call_status c"]
  obtain db1 E where upd: "updateTaskStatus db (call_uid c) (call_client_now c)
        (call_server_now c) tid (call_status c) = Inr db1"
    and d1: "distinct (map task_ident (tasks db1))"
    and h1: "history_of db1 tid = history_of db tid @ E"
    by blast
  from Cons.prems(3) upd have run: "run_updates db1 tid cs = Inr db'" by simp
  from h1 Cons.prems(2) have ne: "history_of db1 tid \<noteq> []"
    and hd1: "hd (history_of db1 tid) = hd (history_of db tid)" by simp_all
  from Cons.IH [OF d1 ne run] hd1 show ?case by simp
qed

text \<open>
  C5, amended. The first history entry recorded for a task holds, as previous status,
  the status the task had before its first transition (\<open>not_started\<close> for a task that
  \<open>handleSubmit\<close> created); it is never null.
\<close>

theorem first_history_entry_old_status:
  assumes "distinct (map task_ident (tasks db))"
    and "lookup_task db tid = Some r"
    and "history_of db tid = []"
    and "run_updates db tid cs = Inr db'"
    and "history_of db' tid \<noteq> []"
  shows "old_status (hd (history_of db' tid)) = Some (status r)"
  using assms
proof (induction cs arbitrary: db r)
  case Nil
  then show ?case by simp
next
  case (Cons c cs)
  let ?s = "call_status c" and ?uid = "call_uid c"
  from updateTaskStatus_step [OF Cons.prems(1), of ?uid "call_client_now c" "call_server_now c" tid ?s]
  obtain db1 where upd: "updateTaskStatus db ?uid (call_client_now c) (call_server_now c) tid ?s = Inr db1"
    and d1: "distinct (map task_ident (tasks db1))"
    and h1: "history_of db1 tid =
          (if tasks_update_policy db ?uid r \<and> status r \<noteq> ?s
           then [\<lparr> history_id = next_uuid db, task_id = tid, old_status = Some (status r),
                   new_status = ?s, changed_by = the (current_profile_id db ?uid),
                   changed_at = call_server_now c \<rparr>]
           else [])"
    and s1: "map_option status (lookup_task db1 tid) =
          Some (if tasks_update_policy db ?uid r then ?s else status r)"
    using Cons.prems(2,3) by auto
  from Cons.prems(4) upd have run: "run_updates db1 tid cs = Inr db'" by simp
  show ?case
  proof (cases "tasks_update_policy db ?uid r \<and> status r \<noteq> ?s")
    case True
    with h1 have ne: "history_of db1 tid \<noteq> []"
      and old: "old_status (hd (history_of db1 tid)) = Some (status r)" by simp_all
    from first_entry_stable [OF d1 ne run] old show ?thesis by simp
  next
    case False
    with h1 have e1: "history_of db1 tid = []" by simp
    from s1 False obtain r1 where r1: "lookup_task db1 tid = Some r1" "status r1 = status r"
      by (auto split: if_splits)
    from Cons.IH [OF d1 r1(1) e1 run Cons.prems(5)] r1(2) show ?thesis by simp
  qed
qed

theorem first_history_entry_old_status_witness:
  "distinct (map task_ident (tasks demo_created))
   \<and> lookup_task demo_created 100 = Some (demo_task 2)
   \<and> history_of demo_created 100 = []
   \<and> run_updates demo_created 100 [\<lparr> call_uid = Some 12, call_client_now = 2000,
        call_server_now = 2001, call_status = in_progress \<rparr>] = Inr demo_started
   \<and> history_of demo_started 100 \<noteq> []
   \<and> old_status (hd (history_of demo_started 100)) = Some (status (demo_task 2))"
proof -
  have run: "run_updates demo_created 100 [\<lparr> call_uid = Some 12, call_client_now = 2000,
        call_server_now = 2001, call_status = in_progress \<rparr>] = Inr demo_started"
    by (simp add: demo_start)
  have ne: "history_of demo_started 100 \<noteq> []" by (simp add: demo_history)
  from first_history_entry_old_status [OF demo_history(4) demo_history(3) demo_history(1) run ne]
    run ne show ?thesis by (simp add: demo_history)
qed

end
